theory Spec2Isabelle
  imports Complex_Main "HOL-Library.AList" "HOL-Library.Word"
begin

section \<open>The proxy of the gateway: routing, HTTP forwarding, WebSocket relay\<close>

text \<open>
  The development embeds the class of \<^verbatim>\<open>proxy/proxy.ts\<close>: its constructor, the two
  route predicates \<^verbatim>\<open>route\<close> and \<^verbatim>\<open>routeWs\<close>, the HTTP forwarder \<^verbatim>\<open>handle\<close> and the
  WebSocket relay \<^verbatim>\<open>handleWs\<close>. The class runs on the Deno runtime; what the runtime
  contributes (the network, the JSON grammar, the WebSocket handshake) is a record of
  functions handed to the handlers, so that every statement holds for any behaviour of
  the outside world.
\<close>

subsection \<open>Values of the runtime\<close>

text \<open>A thrown JavaScript error: its \<^verbatim>\<open>name\<close> and its \<^verbatim>\<open>message\<close>.\<close>

datatype js_error = JsError (err_name: string) (message: string)

text \<open>A value produced by \<^verbatim>\<open>JSON.parse\<close>.\<close>

datatype json =
    JNull
  | JBool bool
  | JNumber real
  | JString string
  | JArray "json list"
  | JObject "(string \<times> json) list"

text \<open>
  \<^verbatim>\<open>a || ""\<close> where \<^verbatim>\<open>a\<close> is a string or \<^verbatim>\<open>null\<close>: \<^verbatim>\<open>null\<close> and the empty string
  are both falsy, so both give the empty string.
\<close>

definition or_empty :: "string option \<Rightarrow> string" where
  "or_empty a = (case a of None \<Rightarrow> [] | Some s \<Rightarrow> s)"

subsection \<open>Header lists\<close>

text \<open>
  A \<^verbatim>\<open>Headers\<close> object is a list of name/value pairs. Names are compared without
  regard to ASCII case; \<^verbatim>\<open>get\<close> joins the values of one name with a comma and a space;
  iteration yields lower-case names, one entry per name (\<^verbatim>\<open>set-cookie\<close> excepted, which
  yields one entry per value).
\<close>

type_synonym header_list = "(string \<times> string) list"

definition lower_char :: "char \<Rightarrow> char" where
  "lower_char c =
     (case map_of (zip ''ABCDEFGHIJKLMNOPQRSTUVWXYZ'' ''abcdefghijklmnopqrstuvwxyz'') c of
        None \<Rightarrow> c
      | Some l \<Rightarrow> l)"

definition toLowerCase :: "string \<Rightarrow> string" where
  "toLowerCase s = map lower_char s"

fun join_values :: "string list \<Rightarrow> string" where
  "join_values [] = []"
| "join_values [v] = v"
| "join_values (v # w # vs) = v @ '', '' @ join_values (w # vs)"

definition header_values :: "header_list \<Rightarrow> string \<Rightarrow> string list" where
  "header_values hs name =
     map snd (filter (\<lambda>kv. toLowerCase (fst kv) = toLowerCase name) hs)"

definition Headers_has :: "header_list \<Rightarrow> string \<Rightarrow> bool" where
  "Headers_has hs name = (header_values hs name \<noteq> [])"

definition Headers_get :: "header_list \<Rightarrow> string \<Rightarrow> string option" where
  "Headers_get hs name =
     (case header_values hs name of [] \<Rightarrow> None | v # vs \<Rightarrow> Some (join_values (v # vs)))"

definition entries_of :: "header_list \<Rightarrow> string \<Rightarrow> (string \<times> string) list" where
  "entries_of hs n =
     (if n = ''set-cookie'' then map (Pair n) (header_values hs n)
      else [(n, join_values (header_values hs n))])"

definition Headers_entries :: "header_list \<Rightarrow> (string \<times> string) list" where
  "Headers_entries hs =
     concat (map (entries_of hs) (remdups (map (\<lambda>kv. toLowerCase (fst kv)) hs)))"

subsection \<open>Plain objects\<close>

text \<open>
  A plain object with string keys is an association list with distinct keys. Assigning a
  key that exists replaces its value, a new key is added at the end; so
  \<^verbatim>\<open>Object.fromEntries\<close> and the spread \<^verbatim>\<open>{ k: v, ...o }\<close> are folds of that update, and
  \<^verbatim>\<open>delete o[k]\<close> drops the key.
\<close>

type_synonym 'v js_object = "(string \<times> 'v) list"

definition obj_assign :: "'v js_object \<Rightarrow> (string \<times> 'v) list \<Rightarrow> 'v js_object" where
  "obj_assign target entries = fold (\<lambda>kv ob. AList.update (fst kv) (snd kv) ob) entries target"

definition Object_fromEntries :: "(string \<times> 'v) list \<Rightarrow> 'v js_object" where
  "Object_fromEntries entries = obj_assign [] entries"

definition obj_delete :: "string \<Rightarrow> 'v js_object \<Rightarrow> 'v js_object" where
  "obj_delete k ob = AList.delete k ob"

subsection \<open>Requests and responses\<close>

text \<open>
  The parsed form of a request URL, as \<^verbatim>\<open>new URL(req.url)\<close> gives it: the path and the
  decoded query parameters in order. \<^verbatim>\<open>searchParams.get\<close> returns the first value of a
  name, \<^verbatim>\<open>null\<close> when there is none.
\<close>

record url =
  pathname :: string
  searchParams :: "(string \<times> string) list"

definition searchParams_get :: "url \<Rightarrow> string \<Rightarrow> string option" where
  "searchParams_get u name = map_of (searchParams u) name"

text \<open>
  An inbound request; \<open>req_text\<close> is what the promise \<^verbatim>\<open>req.text()\<close> settles to: the
  whole body as text, or the error it rejects with (a body that cannot be read).
\<close>

record request =
  req_method :: string
  req_url :: url
  req_headers :: header_list
  req_text :: "js_error + string"

text \<open>
  A body is a string, or a stream of the bytes it delivers; a \<^verbatim>\<open>Response\<close> has a
  status, headers and a body (\<open>None\<close> is the \<^verbatim>\<open>null\<close> body).
\<close>

datatype body = TextBody string | StreamBody string

record response =
  status :: nat
  headers :: header_list
  body :: "body option"

text \<open>The statuses of the Fetch standard that admit no body.\<close>

definition null_body_status :: "nat \<Rightarrow> bool" where
  "null_body_status st = (st = 101 \<or> st = 103 \<or> st = 204 \<or> st = 205 \<or> st = 304)"

text \<open>
  \<open>Response_new\<close> is the constructor \<^verbatim>\<open>new Response(body, { status, headers })\<close> of the
  Fetch standard. The status defaults to 200 and the headers to none. A status outside
  200..599 is a \<^verbatim>\<open>RangeError\<close>; a body together with a status that admits none is a
  \<^verbatim>\<open>TypeError\<close>; a string body brings the header
  \<^verbatim>\<open>content-type: text/plain;charset=UTF-8\<close> unless a content type is given. The
  header names and values handed over are those of an existing header list or literals of
  the program, so that filling the headers does not fail.
\<close>

definition Response_new ::
  "body option \<Rightarrow> nat option \<Rightarrow> string js_object \<Rightarrow> js_error + response" where
  "Response_new b st hs =
     (let n = (case st of None \<Rightarrow> 200 | Some n \<Rightarrow> n) in
      if n < 200 \<or> 599 < n
      then Inl (JsError ''RangeError'' ''The status provided is outside the range [200, 599]'')
      else if b \<noteq> None \<and> null_body_status n
      then Inl (JsError ''TypeError'' ''Response with null body status cannot have body'')
      else Inr \<lparr>status = n,
                headers = (case b of
                             Some (TextBody t) \<Rightarrow>
                               (if Headers_has hs ''content-type'' then hs
                                else hs @ [(''content-type'', ''text/plain;charset=UTF-8'')])
                           | _ \<Rightarrow> hs),
                body = b\<rparr>)"

text \<open>The second argument of \<^verbatim>\<open>fetch\<close>, as \<^verbatim>\<open>handle\<close> builds it.\<close>

record fetch_opts =
  opt_method :: string
  opt_headers :: json
  opt_body :: "string option"

subsection \<open>The class\<close>

record proxy =
  prefix :: string
  wsPrefix :: string
  debug :: bool

text \<open>\<^verbatim>\<open>constructor(prefix, wsPrefix, debug)\<close>, where \<^verbatim>\<open>debug ?? false\<close>.\<close>

definition Proxy_new :: "string \<Rightarrow> string \<Rightarrow> bool option \<Rightarrow> proxy" where
  "Proxy_new p w d =
     \<lparr>prefix = p, wsPrefix = w, debug = (case d of None \<Rightarrow> False | Some b \<Rightarrow> b)\<rparr>"

text \<open>\<^verbatim>\<open>s.startsWith(p)\<close>.\<close>

fun startsWith :: "string \<Rightarrow> string \<Rightarrow> bool" where
  "startsWith s [] = True"
| "startsWith [] (c # p) = False"
| "startsWith (x # s) (c # p) = (x = c \<and> startsWith s p)"

definition route :: "proxy \<Rightarrow> string \<Rightarrow> bool" where
  "route this path = (path = prefix this)"

definition routeWs :: "proxy \<Rightarrow> string \<Rightarrow> bool" where
  "routeWs this path = startsWith path (wsPrefix this)"

text \<open>The instance the server creates: \<^verbatim>\<open>new Proxy("/fetch", "/fetchWs")\<close>.\<close>

definition server_proxy :: proxy where
  "server_proxy = Proxy_new ''/fetch'' ''/fetchWs'' None"

subsection \<open>The runtime\<close>

text \<open>
  What the handlers ask of the runtime, as functions of their arguments:
  \<^item> \<open>json_text\<close>: the JSON grammar on a non-empty text, the parsed value or the
    \<^verbatim>\<open>SyntaxError\<close>;
  \<^item> \<open>fetch\<close>: the outbound HTTP call, the upstream response or the error it rejects with;
  \<^item> \<open>upgradeWebSocket\<close>: \<^verbatim>\<open>Deno.upgradeWebSocket(req, { protocol })\<close>, the response of
    the handshake or the error thrown for a request that is not an upgrade;
  \<^item> \<open>ws_connect\<close>: the checks of \<^verbatim>\<open>new WebSocket(url, protocol)\<close> on a non-empty URL,
    \<open>None\<close> when the socket is created.
\<close>

record platform =
  json_text :: "string \<Rightarrow> js_error + json"
  fetch :: "string \<Rightarrow> fetch_opts \<Rightarrow> js_error + response"
  upgradeWebSocket :: "request \<Rightarrow> string \<Rightarrow> js_error + response"
  ws_connect :: "string \<Rightarrow> string \<Rightarrow> js_error option"

text \<open>
  \<^verbatim>\<open>JSON.parse(text)\<close>. The empty text is no JSON value whatever the rest of the grammar
  is: on it \<^verbatim>\<open>JSON.parse\<close> throws a \<^verbatim>\<open>SyntaxError\<close>.
\<close>

definition JSON_parse :: "platform \<Rightarrow> string \<Rightarrow> js_error + json" where
  "JSON_parse plat text =
     (if text = [] then Inl (JsError ''SyntaxError'' ''Unexpected end of JSON input'')
      else json_text plat text)"

text \<open>What a handler does to the outside world, in the order it does it.\<close>

datatype effect =
    ConsoleLog string
  | ReadText
  | Fetch string fetch_opts
  | UpgradeWebSocket string
  | NewWebSocket string string

text \<open>The outbound HTTP calls among the effects.\<close>

fun is_fetch :: "effect \<Rightarrow> bool" where
  "is_fetch (Fetch u opts) = True"
| "is_fetch e = False"

subsection \<open>The HTTP forwarder\<close>

text \<open>
  \<^verbatim>\<open>async handle(req)\<close>. The result is the settled promise, \<open>Inl\<close> a rejection and
  \<open>Inr\<close> the response it resolves to, with the effects performed.

  \<open>try_block\<close> is the body of the \<^verbatim>\<open>try\<close> block, \<open>Inl\<close> an error thrown inside it:
  by \<^verbatim>\<open>req.text()\<close>, by \<^verbatim>\<open>fetch\<close> or by the constructor of the response.
  \<open>handle_try\<close> is the \<^verbatim>\<open>try\<close> statement: its \<^verbatim>\<open>catch\<close> answers any such error with
  \<^verbatim>\<open>new Response(err.message, { status: 500 })\<close>. In \<open>handle\<close>, \<^verbatim>\<open>JSON.parse\<close> is
  evaluated before the \<^verbatim>\<open>try\<close> statement is entered.
\<close>

definition try_block ::
  "platform \<Rightarrow> request \<Rightarrow> string \<Rightarrow> json \<Rightarrow> (js_error + response) \<times> effect list" where
  "try_block plat req url hdrs =
     (let opts0 = \<lparr>opt_method = req_method req, opt_headers = hdrs, opt_body = None\<rparr> in
      case (if opt_method opts0 = ''POST''
            then (case req_text req of
                    Inl err \<Rightarrow> Inl err
                  | Inr t \<Rightarrow> Inr (opts0\<lparr>opt_body := Some t\<rparr>,
                                  [ReadText, ConsoleLog (req_method req @ '' '' @ url)]))
            else Inr (opts0, [])) of
        Inl err \<Rightarrow> (Inl err, [ReadText])
      | Inr (opts, io) \<Rightarrow>
          (case fetch plat url opts of
             Inl err \<Rightarrow> (Inl err, io @ [Fetch url opts])
           | Inr proxyResp \<Rightarrow>
               (let respHeaders = Object_fromEntries (Headers_entries (headers proxyResp));
                    respHeaders = obj_delete ''age'' respHeaders;
                    respHeaders = obj_delete ''cache-control'' respHeaders;
                    respHeaders = obj_delete ''expires'' respHeaders
                in (Response_new (body proxyResp) (Some (status proxyResp))
                      (obj_assign [(''cache-control'', ''no-cache'')] respHeaders),
                    io @ [Fetch url opts]))))"

definition handle_try ::
  "platform \<Rightarrow> request \<Rightarrow> string \<Rightarrow> json \<Rightarrow> (js_error + response) \<times> effect list" where
  "handle_try plat req url hdrs =
     (case try_block plat req url hdrs of
        (Inl err, trace) \<Rightarrow> (Response_new (Some (TextBody (message err))) (Some 500) [], trace)
      | (Inr resp, trace) \<Rightarrow> (Inr resp, trace))"

definition handle :: "platform \<Rightarrow> proxy \<Rightarrow> request \<Rightarrow> (js_error + response) \<times> effect list" where
  "handle plat this req =
     (let url = or_empty (Headers_get (req_headers req) ''x-url'') in
      case JSON_parse plat (or_empty (Headers_get (req_headers req) ''x-headers'')) of
        Inl err \<Rightarrow> (Inl err, [])
      | Inr hdrs \<Rightarrow>
          (let log = (if debug this then [ConsoleLog (''Handling '' @ url)] else []);
               (res, trace) = handle_try plat req url hdrs
           in (res, log @ trace)))"

subsection \<open>WebSockets\<close>

datatype ready_state = CONNECTING | OPEN | CLOSING | CLOSED

text \<open>The \<^verbatim>\<open>data\<close> of a message event: a text frame or a binary frame.\<close>

datatype ws_data = TextData string | BinaryData "8 word list"

text \<open>
  The two sockets of a relay session, by the names \<^verbatim>\<open>handleWs\<close> gives them, and the
  four closures it installs: \<^verbatim>\<open>(e) => t.send(e.data)\<close> is \<open>SendTo t\<close> and
  \<^verbatim>\<open>() => t.close()\<close> is \<open>CloseOf t\<close>.
\<close>

datatype sock_ref = Sock | ProxySock

datatype msg_handler = SendTo sock_ref

datatype close_handler = CloseOf sock_ref

text \<open>
  A \<^verbatim>\<open>WebSocket\<close> object: \<open>sent\<close> is the list of frames handed to \<^verbatim>\<open>send\<close> and accepted
  for transmission, oldest first.
\<close>

record websocket =
  ws_url :: string
  ws_protocol :: string
  readyState :: ready_state
  onmessage :: "msg_handler option"
  onclose :: "close_handler option"
  sent :: "ws_data list"

text \<open>
  A relay session: the client socket, the upstream socket, and the errors thrown inside
  event handlers (nobody catches them).
\<close>

record session =
  sock :: websocket
  proxySock :: websocket
  uncaught :: "js_error list"

definition get_sock :: "sock_ref \<Rightarrow> session \<Rightarrow> websocket" where
  "get_sock r s = (case r of Sock \<Rightarrow> sock s | ProxySock \<Rightarrow> proxySock s)"

definition map_sock :: "sock_ref \<Rightarrow> (websocket \<Rightarrow> websocket) \<Rightarrow> session \<Rightarrow> session" where
  "map_sock r f s =
     (case r of Sock \<Rightarrow> s\<lparr>sock := f (sock s)\<rparr> | ProxySock \<Rightarrow> s\<lparr>proxySock := f (proxySock s)\<rparr>)"

text \<open>
  \<^verbatim>\<open>t.send(data)\<close>: an open socket accepts the frame; on any other socket Deno throws
  an \<^verbatim>\<open>InvalidStateError\<close> and the frame is lost.
\<close>

definition WebSocket_send :: "sock_ref \<Rightarrow> ws_data \<Rightarrow> session \<Rightarrow> session" where
  "WebSocket_send t d s =
     (if readyState (get_sock t s) = OPEN
      then map_sock t (\<lambda>w. w\<lparr>sent := sent w @ [d]\<rparr>) s
      else s\<lparr>uncaught := uncaught s @ [JsError ''InvalidStateError'' ''readyState not OPEN'']\<rparr>)"

text \<open>
  \<^verbatim>\<open>t.close()\<close>: nothing on a socket that is closing or closed; otherwise the closing
  handshake starts (a connecting socket abandons its connection) and the state is
  \<^verbatim>\<open>CLOSING\<close>.
\<close>

definition WebSocket_close :: "sock_ref \<Rightarrow> session \<Rightarrow> session" where
  "WebSocket_close t s =
     (if readyState (get_sock t s) = CLOSING \<or> readyState (get_sock t s) = CLOSED then s
      else map_sock t (\<lambda>w. w\<lparr>readyState := CLOSING\<rparr>) s)"

text \<open>
  \<^verbatim>\<open>new WebSocket(url, protocol)\<close>. The empty string is no absolute \<^verbatim>\<open>ws:\<close> or
  \<^verbatim>\<open>wss:\<close> URL, so on it the constructor throws a \<^verbatim>\<open>SyntaxError\<close>; any other URL is
  left to the runtime. A socket that is created is connecting and has no handlers.
\<close>

definition WebSocket_new :: "platform \<Rightarrow> string \<Rightarrow> string \<Rightarrow> js_error + websocket" where
  "WebSocket_new plat url proto =
     (if url = [] then Inl (JsError ''SyntaxError'' ''Invalid URL'')
      else case ws_connect plat url proto of
             Some err \<Rightarrow> Inl err
           | None \<Rightarrow> Inr \<lparr>ws_url = url, ws_protocol = proto, readyState = CONNECTING,
                          onmessage = None, onclose = None, sent = []\<rparr>)"

text \<open>The server side socket \<^verbatim>\<open>Deno.upgradeWebSocket\<close> returns with its response.\<close>

definition upgraded_socket :: "string \<Rightarrow> websocket" where
  "upgraded_socket proto =
     \<lparr>ws_url = [], ws_protocol = proto, readyState = CONNECTING,
      onmessage = None, onclose = None, sent = []\<rparr>"

subsection \<open>The WebSocket relay\<close>

text \<open>
  \<^verbatim>\<open>handleWs(req)\<close> returns a plain response, or the response of the handshake together
  with the session it has wired; \<open>Inl\<close> is an exception thrown to the caller.
\<close>

datatype ws_result = Plain response | Upgraded response session

definition handleWs ::
  "platform \<Rightarrow> proxy \<Rightarrow> request \<Rightarrow> (js_error + ws_result) \<times> effect list" where
  "handleWs plat this req =
     (let proto = or_empty (Headers_get (req_headers req) ''sec-websocket-protocol'') in
      case upgradeWebSocket plat req proto of
        Inl err \<Rightarrow>
          (case Response_new (Some (TextBody ''Not a WS connection'')) None [] of
             Inl err' \<Rightarrow> (Inl err', [UpgradeWebSocket proto])
           | Inr plain \<Rightarrow> (Inr (Plain plain), [UpgradeWebSocket proto]))
      | Inr resp \<Rightarrow>
          (let sock0 = upgraded_socket proto;
               url = or_empty (searchParams_get (req_url req) ''url'');
               log = (if debug this then [ConsoleLog (''Handling WS '' @ url)] else []);
               trace = [UpgradeWebSocket proto] @ log @ [NewWebSocket url proto]
           in case WebSocket_new plat url proto of
                Inl err \<Rightarrow> (Inl err, trace)
              | Inr proxySock0 \<Rightarrow>
                  (let sock1 = sock0\<lparr>onmessage := Some (SendTo ProxySock)\<rparr>;
                       proxySock1 = proxySock0\<lparr>onmessage := Some (SendTo Sock)\<rparr>;
                       sock2 = sock1\<lparr>onclose := Some (CloseOf ProxySock)\<rparr>;
                       proxySock2 = proxySock1\<lparr>onclose := Some (CloseOf Sock)\<rparr>
                   in (Inr (Upgraded resp
                              \<lparr>sock = sock2, proxySock = proxySock2, uncaught = []\<rparr>),
                       trace))))"

subsection \<open>Events of a session\<close>

text \<open>
  The runtime delivers three kinds of event to a socket. An open event turns a connecting
  socket into an open one. A message event reaches an open socket and runs its
  \<^verbatim>\<open>onmessage\<close> handler. A close event reaches a socket that is not yet closed, makes it
  closed and runs its \<^verbatim>\<open>onclose\<close> handler. \<open>fire\<close> is \<open>None\<close> for an event the runtime
  cannot deliver in that state; \<open>run\<close> delivers a list of events in order.
\<close>

datatype ws_event = OpenEvent sock_ref | MessageEvent sock_ref ws_data | CloseEvent sock_ref

fun fire :: "ws_event \<Rightarrow> session \<Rightarrow> session option" where
  "fire (OpenEvent r) s =
     (if readyState (get_sock r s) = CONNECTING
      then Some (map_sock r (\<lambda>w. w\<lparr>readyState := OPEN\<rparr>) s) else None)"
| "fire (MessageEvent r d) s =
     (if readyState (get_sock r s) = OPEN
      then Some (case onmessage (get_sock r s) of
                   None \<Rightarrow> s
                 | Some (SendTo t) \<Rightarrow> WebSocket_send t d s)
      else None)"
| "fire (CloseEvent r) s =
     (if readyState (get_sock r s) = CLOSED then None
      else (let s' = map_sock r (\<lambda>w. w\<lparr>readyState := CLOSED\<rparr>) s
            in Some (case onclose (get_sock r s') of
                       None \<Rightarrow> s'
                     | Some (CloseOf t) \<Rightarrow> WebSocket_close t s')))"

fun run :: "ws_event list \<Rightarrow> session \<Rightarrow> session option" where
  "run [] s = Some s"
| "run (e # es) s = (case fire e s of None \<Rightarrow> None | Some s' \<Rightarrow> run es s')"

text \<open>The payloads of the message events that reach socket \<open>r\<close>, in order.\<close>

fun received :: "sock_ref \<Rightarrow> ws_event list \<Rightarrow> ws_data list" where
  "received r [] = []"
| "received r (MessageEvent r' d # es) = (if r' = r then d # received r es else received r es)"
| "received r (e # es) = received r es"

fun is_message :: "ws_event \<Rightarrow> bool" where
  "is_message (MessageEvent r d) = True"
| "is_message e = False"

text \<open>
  No side is left dangling: when one socket is closed, the other is closing or closed.
\<close>

definition no_dangling :: "session \<Rightarrow> bool" where
  "no_dangling s =
     ((readyState (sock s) = CLOSED \<longrightarrow>
         readyState (proxySock s) = CLOSING \<or> readyState (proxySock s) = CLOSED) \<and>
      (readyState (proxySock s) = CLOSED \<longrightarrow>
         readyState (sock s) = CLOSING \<or> readyState (sock s) = CLOSED))"

text \<open>
  The handlers as \<^verbatim>\<open>handleWs\<close> installs them: each socket forwards its messages to the
  other one and closes the other one when it closes.
\<close>

definition wired :: "session \<Rightarrow> bool" where
  "wired s =
     (onmessage (sock s) = Some (SendTo ProxySock) \<and>
      onmessage (proxySock s) = Some (SendTo Sock) \<and>
      onclose (sock s) = Some (CloseOf ProxySock) \<and>
      onclose (proxySock s) = Some (CloseOf Sock))"

subsection \<open>A sample world\<close>

text \<open>
  One concrete runtime and a few requests, on which the statements below are exercised:
  only \<^verbatim>\<open>{}\<close> parses, only \<^verbatim>\<open>http://up.example/\<close> answers, a request is an upgrade
  when its \<^verbatim>\<open>upgrade\<close> header is \<^verbatim>\<open>websocket\<close>, and every WebSocket URL is accepted.
\<close>

definition sample_platform :: platform where
  "sample_platform =
     \<lparr>json_text = (\<lambda>t. if t = ''{}'' then Inr (JObject [])
                       else Inl (JsError ''SyntaxError'' ''Unexpected token in JSON'')),
      fetch = (\<lambda>u opts. if u = ''http://up.example/''
                 then Inr \<lparr>status = 404,
                           headers = [(''Age'', ''5''), (''Cache-Control'', ''max-age=60''),
                                      (''Expires'', ''0''), (''Content-Type'', ''text/plain'')],
                           body = Some (StreamBody ''hello'')\<rparr>
                 else Inl (JsError ''TypeError'' ''error sending request'')),
      upgradeWebSocket = (\<lambda>req proto.
                 if Headers_get (req_headers req) ''upgrade'' = Some ''websocket''
                 then Inr \<lparr>status = 101, headers = [(''upgrade'', ''websocket'')], body = None\<rparr>
                 else Inl (JsError ''TypeError'' ''Invalid Header: upgrade'')),
      ws_connect = (\<lambda>u proto. None)\<rparr>"

definition sample_request :: "string \<Rightarrow> header_list \<Rightarrow> string \<Rightarrow> request" where
  "sample_request m hs b =
     \<lparr>req_method = m, req_url = \<lparr>pathname = ''/fetch'', searchParams = []\<rparr>,
      req_headers = hs, req_text = Inr b\<rparr>"

definition sample_ws_request :: "(string \<times> string) list \<Rightarrow> header_list \<Rightarrow> request" where
  "sample_ws_request q hs =
     \<lparr>req_method = ''GET'', req_url = \<lparr>pathname = ''/fetchWs'', searchParams = q\<rparr>,
      req_headers = hs, req_text = Inr []\<rparr>"

text \<open>
  Three forward requests with well-formed metadata: a \<^verbatim>\<open>GET\<close> and a \<^verbatim>\<open>POST\<close> for a
  target that does not answer, and a \<^verbatim>\<open>GET\<close> for the target that does.
\<close>

definition sample_get_down :: request where
  "sample_get_down =
     sample_request ''GET'' [(''x-url'', ''http://down.example/''), (''x-headers'', ''{}'')] []"

definition sample_post_down :: request where
  "sample_post_down =
     sample_request ''POST'' [(''x-url'', ''http://down.example/''), (''x-headers'', ''{}'')]
       ''payload''"

definition sample_get_up :: request where
  "sample_get_up =
     sample_request ''GET'' [(''x-url'', ''http://up.example/''), (''X-Headers'', ''{}'')] []"

text \<open>
  A runtime whose upstream answers every call with the status 999, which HTTP can carry
  and the constructor of a response refuses.
\<close>

definition odd_platform :: platform where
  "odd_platform =
     sample_platform\<lparr>fetch := (\<lambda>u opts.
        Inr \<lparr>status = 999, headers = [(''Content-Type'', ''text/plain'')],
             body = Some (StreamBody ''odd'')\<rparr>)\<rparr>"

text \<open>
  An upgrade request for \<^verbatim>\<open>/fetchWs?url=ws://up.example/\<close> and the session \<^verbatim>\<open>handleWs\<close>
  returns for it on the sample runtime.
\<close>

definition sample_upgrade :: request where
  "sample_upgrade =
     sample_ws_request [(''url'', ''ws://up.example/'')] [(''Upgrade'', ''websocket'')]"

definition sample_session :: session where
  "sample_session =
     \<lparr>sock = \<lparr>ws_url = [], ws_protocol = [], readyState = CONNECTING,
              onmessage = Some (SendTo ProxySock), onclose = Some (CloseOf ProxySock),
              sent = []\<rparr>,
      proxySock = \<lparr>ws_url = ''ws://up.example/'', ws_protocol = [], readyState = CONNECTING,
                   onmessage = Some (SendTo Sock), onclose = Some (CloseOf Sock),
                   sent = []\<rparr>,
      uncaught = []\<rparr>"

section \<open>Route matching\<close>

lemma startsWith_self: "startsWith s s"
  by (induction s) simp_all

text \<open>Some path satisfies both predicates exactly when the forward prefix starts with the relay prefix.\<close>

lemma route_overlap_iff:
  "(\<exists>path. route this path \<and> routeWs this path) \<longleftrightarrow> startsWith (prefix this) (wsPrefix this)"
  by (auto simp: route_def routeWs_def)

lemma routeWs_prefix_itself: "routeWs this (wsPrefix this)"
  by (simp add: routeWs_def startsWith_self)

text \<open>
  Claim C4. With the prefixes the server configures, \<^verbatim>\<open>/fetch\<close> and \<^verbatim>\<open>/fetchWs\<close>, the
  forward predicate accepts \<^verbatim>\<open>/fetch\<close> and rejects \<^verbatim>\<open>/fetch/x\<close> (equality with the
  prefix), and the relay predicate accepts both \<^verbatim>\<open>/fetchWs\<close> and \<^verbatim>\<open>/fetchWs/anything\<close>
  (the path starts with the prefix).
\<close>

theorem route_examples:
  "route server_proxy ''/fetch'' \<and> \<not> route server_proxy ''/fetch/x'' \<and>
   routeWs server_proxy ''/fetchWs'' \<and> routeWs server_proxy ''/fetchWs/anything''"
  by (simp add: server_proxy_def Proxy_new_def route_def routeWs_def)


text \<open>
  Claim C5, amended. Two distinct prefixes do not make the predicates exclusive: a relay
  prefix that the forward prefix starts with accepts the forward path too. What holds:
  when the forward prefix does not start with the relay prefix, as with \<^verbatim>\<open>/fetch\<close> and
  \<^verbatim>\<open>/fetchWs\<close>, no path satisfies both predicates.
\<close>

theorem route_exclusive:
  assumes "\<not> startsWith (prefix this) (wsPrefix this)"
  shows "\<not> (route this path \<and> routeWs this path)"
  using assms by (auto simp: route_def routeWs_def)

theorem route_exclusive_witness:
  "\<not> startsWith (prefix server_proxy) (wsPrefix server_proxy) \<and>
   \<not> (route server_proxy ''/fetch'' \<and> routeWs server_proxy ''/fetch'')"
proof -
  have h: "\<not> startsWith (prefix server_proxy) (wsPrefix server_proxy)"
    by (simp add: server_proxy_def Proxy_new_def)
  from route_exclusive [OF h, of "''/fetch''"] h show ?thesis by simp
qed

text \<open>
  Claim C5 as stated fails: with the forward prefix \<^verbatim>\<open>/fetchWs\<close> and the relay prefix
  \<^verbatim>\<open>/fetch\<close>, which are distinct, the path \<^verbatim>\<open>/fetchWs\<close> satisfies both predicates.
\<close>

theorem route_overlap_example:
  "prefix (Proxy_new ''/fetchWs'' ''/fetch'' None) \<noteq> wsPrefix (Proxy_new ''/fetchWs'' ''/fetch'' None) \<and>
   route (Proxy_new ''/fetchWs'' ''/fetch'' None) ''/fetchWs'' \<and>
   routeWs (Proxy_new ''/fetchWs'' ''/fetch'' None) ''/fetchWs''"
  by (simp add: Proxy_new_def route_def routeWs_def)

section \<open>Header lists and objects\<close>

lemma lower_char_idem: "lower_char (lower_char c) = lower_char c"
  by (simp add: lower_char_def)

lemma toLowerCase_idem: "toLowerCase (toLowerCase s) = toLowerCase s"
  by (simp add: toLowerCase_def lower_char_idem)

lemma entries_of_name: "kv \<in> set (entries_of hs n) \<Longrightarrow> fst kv = n"
  by (auto simp: entries_of_def split: if_splits)

lemma Headers_entries_names:
  "kv \<in> set (Headers_entries hs) \<Longrightarrow> fst kv \<in> (\<lambda>h. toLowerCase (fst h)) ` set hs"
  by (auto simp: Headers_entries_def dest!: entries_of_name)

lemma Headers_entries_lower:
  "kv \<in> set (Headers_entries hs) \<Longrightarrow> toLowerCase (fst kv) = fst kv"
  using Headers_entries_names [of kv hs] by (auto simp: toLowerCase_idem)

lemma obj_assign_keys: "fst ` set (obj_assign t es) = fst ` set t \<union> fst ` set es"
  unfolding obj_assign_def
  by (induction es arbitrary: t) (auto simp: dom_update)

lemma obj_assign_distinct: "distinct (map fst t) \<Longrightarrow> distinct (map fst (obj_assign t es))"
  unfolding obj_assign_def
  by (induction es arbitrary: t) (simp_all add: distinct_update)

lemma obj_assign_other: "k \<notin> fst ` set es \<Longrightarrow> map_of (obj_assign t es) k = map_of t k"
  unfolding obj_assign_def
  by (induction es arbitrary: t) (auto simp: update_conv')

lemma obj_delete_keys: "fst ` set (obj_delete k ob) = fst ` set ob - {k}"
  by (auto simp: obj_delete_def AList.delete_eq)

lemma obj_delete_distinct: "distinct (map fst ob) \<Longrightarrow> distinct (map fst (obj_delete k ob))"
  by (simp add: obj_delete_def distinct_delete)

lemma header_values_lower_distinct:
  assumes "\<forall>kv \<in> set hs. toLowerCase (fst kv) = fst kv" "distinct (map fst hs)"
  shows "header_values hs name =
           (case map_of hs (toLowerCase name) of None \<Rightarrow> [] | Some v \<Rightarrow> [v])"
  using assms
proof (induction hs)
  case Nil
  then show ?case by (simp add: header_values_def)
next
  case (Cons a hs)
  then have ih: "header_values hs name =
           (case map_of hs (toLowerCase name) of None \<Rightarrow> [] | Some v \<Rightarrow> [v])" by simp
  show ?case
  proof (cases "fst a = toLowerCase name")
    case True
    with Cons.prems have "map_of hs (toLowerCase name) = None"
      by (auto simp: map_of_eq_None_iff)
    with True ih Cons.prems show ?thesis
      by (cases a) (auto simp: header_values_def)
  next
    case False
    with ih Cons.prems show ?thesis
      by (cases a) (auto simp: header_values_def)
  qed
qed


lemma no_cache_headers:
  assumes H: "H = obj_assign [(''cache-control'', ''no-cache'')]
      (obj_delete ''expires'' (obj_delete ''cache-control'' (obj_delete ''age''
         (Object_fromEntries (Headers_entries hs)))))"
  shows "\<not> Headers_has H ''age''" "\<not> Headers_has H ''expires''"
    "Headers_get H ''cache-control'' = Some ''no-cache''"
    "map_of H ''age'' = None" "map_of H ''expires'' = None"
    "map_of H ''cache-control'' = Some ''no-cache''"
proof -
  define R where "R = obj_delete ''expires'' (obj_delete ''cache-control'' (obj_delete ''age''
         (Object_fromEntries (Headers_entries hs))))"
  have HR: "H = obj_assign [(''cache-control'', ''no-cache'')] R"
    by (simp add: H R_def)
  have Rkeys: "fst ` set R = fst ` set (Headers_entries hs) - {''age'', ''cache-control'', ''expires''}"
    by (auto simp: R_def obj_assign_keys obj_delete_keys Object_fromEntries_def)
  have keys: "fst ` set H = insert ''cache-control'' (fst ` set R)"
    by (simp add: HR obj_assign_keys)
  have dist: "distinct (map fst H)"
    by (simp add: HR obj_assign_distinct)
  have low: "toLowerCase (fst kv) = fst kv" if "kv \<in> set H" for kv
  proof -
    from that have "fst kv \<in> fst ` set H" by simp
    then consider "fst kv = ''cache-control''" | "fst kv \<in> fst ` set (Headers_entries hs)"
      unfolding keys Rkeys by blast
    then show ?thesis
    proof cases
      case 1
      then show ?thesis by (simp add: toLowerCase_def lower_char_def)
    next
      case 2
      then show ?thesis using Headers_entries_lower by auto
    qed
  qed
  show m1: "map_of H ''age'' = None" and m2: "map_of H ''expires'' = None"
    by (simp_all add: map_of_eq_None_iff keys Rkeys)
  have "''cache-control'' \<notin> fst ` set R"
    by (simp add: Rkeys)
  then show m3: "map_of H ''cache-control'' = Some ''no-cache''"
    unfolding HR by (simp add: obj_assign_other)
  have hv: "header_values H name =
           (case map_of H (toLowerCase name) of None \<Rightarrow> [] | Some v \<Rightarrow> [v])" for name
    by (rule header_values_lower_distinct) (auto simp: low dist)
  have l: "toLowerCase ''age'' = ''age''" "toLowerCase ''expires'' = ''expires''"
    "toLowerCase ''cache-control'' = ''cache-control''"
    by (simp_all add: toLowerCase_def lower_char_def)
  show "\<not> Headers_has H ''age''" "\<not> Headers_has H ''expires''"
    "Headers_get H ''cache-control'' = Some ''no-cache''"
    by (simp_all only: Headers_has_def Headers_get_def hv l m1 m2 m3) simp_all
qed

section \<open>The HTTP forwarder\<close>

lemma Response_new_500:
  "Response_new (Some (TextBody m)) (Some 500) [] =
     Inr \<lparr>status = 500, headers = [(''content-type'', ''text/plain;charset=UTF-8'')],
          body = Some (TextBody m)\<rparr>"
  by (simp add: Response_new_def null_body_status_def Headers_has_def header_values_def)

lemma handle_parse_error:
  "JSON_parse plat (or_empty (Headers_get (req_headers req) ''x-headers'')) = Inl err \<Longrightarrow>
   handle plat this req = (Inl err, [])"
  by (simp add: handle_def)

lemma handle_parsed:
  assumes "JSON_parse plat (or_empty (Headers_get (req_headers req) ''x-headers'')) = Inr hdrs"
  shows "handle plat this req =
     (fst (handle_try plat req (or_empty (Headers_get (req_headers req) ''x-url'')) hdrs),
      (if debug this
       then [ConsoleLog (''Handling '' @ or_empty (Headers_get (req_headers req) ''x-url''))]
       else [])
      @ snd (handle_try plat req (or_empty (Headers_get (req_headers req) ''x-url'')) hdrs))"
  using assms by (simp add: handle_def Let_def split: prod.splits)

lemma handle_try_caught:
  "try_block plat req url hdrs = (Inl e, tr) \<Longrightarrow>
   handle_try plat req url hdrs =
     (Inr \<lparr>status = 500, headers = [(''content-type'', ''text/plain;charset=UTF-8'')],
           body = Some (TextBody (message e))\<rparr>, tr)"
  by (simp add: handle_try_def Response_new_500)

lemma handle_try_returned:
  "try_block plat req url hdrs = (Inr resp, tr) \<Longrightarrow>
   handle_try plat req url hdrs = (Inr resp, tr)"
  by (simp add: handle_try_def)

lemma handle_try_resolves: "\<exists>resp. fst (handle_try plat req url hdrs) = Inr resp"
proof (cases "try_block plat req url hdrs")
  case (Pair res tr)
  then show ?thesis
    by (cases res) (simp_all add: handle_try_caught handle_try_returned)
qed

lemma handle_try_trace: "snd (handle_try plat req url hdrs) = snd (try_block plat req url hdrs)"
  by (cases "try_block plat req url hdrs"; cases "fst (try_block plat req url hdrs)")
     (auto simp: handle_try_def split: sum.splits)

lemma try_block_read_error:
  "req_method req = ''POST'' \<Longrightarrow> req_text req = Inl e \<Longrightarrow>
   try_block plat req url hdrs = (Inl e, [ReadText])"
  by (simp add: try_block_def)

lemma try_block_fetch:
  assumes "req_method req = ''POST'' \<longrightarrow> req_text req = Inr b"
  shows "try_block plat req url hdrs =
    (case fetch plat url \<lparr>opt_method = req_method req, opt_headers = hdrs,
                           opt_body = (if req_method req = ''POST'' then Some b else None)\<rparr> of
       Inl err \<Rightarrow> Inl err
     | Inr up \<Rightarrow>
         Response_new (body up) (Some (status up))
           (obj_assign [(''cache-control'', ''no-cache'')]
              (obj_delete ''expires'' (obj_delete ''cache-control'' (obj_delete ''age''
                 (Object_fromEntries (Headers_entries (headers up))))))),
     (if req_method req = ''POST''
      then [ReadText, ConsoleLog (req_method req @ '' '' @ url)] else [])
     @ [Fetch url \<lparr>opt_method = req_method req, opt_headers = hdrs,
                   opt_body = (if req_method req = ''POST'' then Some b else None)\<rparr>])"
  using assms by (auto simp: try_block_def Let_def split: sum.splits)


lemma header_values_append:
  "header_values (xs @ ys) name = header_values xs name @ header_values ys name"
  by (simp add: header_values_def)

lemma Response_new_accepts:
  assumes "200 \<le> n" "n \<le> 599" "null_body_status n \<longrightarrow> b = None"
  shows "\<exists>hs'. Response_new b (Some n) hs = Inr \<lparr>status = n, headers = hs', body = b\<rparr> \<and>
           (hs' = hs \<or> hs' = hs @ [(''content-type'', ''text/plain;charset=UTF-8'')])"
  using assms
  by (auto simp: Response_new_def Let_def split: option.splits body.splits)

lemma content_type_added:
  assumes "hs' = hs \<or> hs' = hs @ [(''content-type'', ''text/plain;charset=UTF-8'')]"
    and "toLowerCase name \<noteq> ''content-type''" and "name \<noteq> ''content-type''"
  shows "header_values hs' name = header_values hs name" "map_of hs' name = map_of hs name"
  using assms
  by (auto simp: header_values_append header_values_def toLowerCase_def lower_char_def
                 map_add_def split: option.splits)

lemmas sample_defs =
  handle_def handle_try_def try_block_def sample_platform_def odd_platform_def
  sample_request_def sample_get_down_def sample_post_down_def sample_get_up_def
  server_proxy_def Proxy_new_def JSON_parse_def or_empty_def Headers_get_def Headers_has_def
  header_values_def toLowerCase_def lower_char_def Response_new_def null_body_status_def
  Headers_entries_def entries_of_def Object_fromEntries_def obj_assign_def obj_delete_def
  Let_def

lemma sample_down_facts:
  "JSON_parse sample_platform (or_empty (Headers_get (req_headers sample_get_down) ''x-headers''))
     = Inr (JObject [])"
  "JSON_parse sample_platform (or_empty (Headers_get (req_headers sample_post_down) ''x-headers''))
     = Inr (JObject [])"
  "or_empty (Headers_get (req_headers sample_get_down) ''x-url'') = ''http://down.example/''"
  "or_empty (Headers_get (req_headers sample_post_down) ''x-url'') = ''http://down.example/''"
  "req_method sample_get_down = ''GET''" "req_method sample_post_down = ''POST''"
  "req_text sample_post_down = Inr ''payload''"
  by (simp_all add: sample_defs)

lemma sample_up_facts:
  "JSON_parse sample_platform (or_empty (Headers_get (req_headers sample_get_up) ''x-headers''))
     = Inr (JObject [])"
  "JSON_parse odd_platform (or_empty (Headers_get (req_headers sample_get_up) ''x-headers''))
     = Inr (JObject [])"
  "or_empty (Headers_get (req_headers sample_get_up) ''x-url'') = ''http://up.example/''"
  "req_method sample_get_up = ''GET''"
  by (simp_all add: sample_defs)


text \<open>
  A body that cannot be read is answered like any other error of the \<^verbatim>\<open>try\<close> block.
\<close>

lemma handle_read_error:
  assumes "JSON_parse plat (or_empty (Headers_get (req_headers req) ''x-headers'')) = Inr hdrs"
    and "req_method req = ''POST''" and "req_text req = Inl e"
  shows "fst (handle plat this req) =
           Inr \<lparr>status = 500, headers = [(''content-type'', ''text/plain;charset=UTF-8'')],
                body = Some (TextBody (message e))\<rparr>"
  using handle_parsed [OF assms(1), of this]
    handle_try_caught [OF try_block_read_error [OF assms(2,3)]]
  by simp

text \<open>
  Claim C1 (the code does otherwise). \<^verbatim>\<open>JSON.parse\<close> is called before the \<^verbatim>\<open>try\<close>
  block, so its \<^verbatim>\<open>SyntaxError\<close> is not caught: on a request without an \<^verbatim>\<open>x-headers\<close>
  header, and on one whose \<^verbatim>\<open>x-headers\<close> is not JSON, the promise of \<^verbatim>\<open>handle\<close> is
  rejected with the parse error, and no response with status 500 is produced. The first
  holds on every runtime, the second is evaluated on the sample one.
\<close>

theorem handle_parse_error_escapes:
  "handle plat this (sample_request ''GET'' [(''x-url'', ''http://up.example/'')] [])
     = (Inl (JsError ''SyntaxError'' ''Unexpected end of JSON input''), []) \<and>
   handle sample_platform server_proxy
      (sample_request ''GET'' [(''x-url'', ''http://up.example/''), (''x-headers'', ''{oops'')] [])
     = (Inl (JsError ''SyntaxError'' ''Unexpected token in JSON''), [])"
  by (simp add: sample_defs)


text \<open>
  Claim C2. Take a forward request whose \<^verbatim>\<open>x-headers\<close> parses, so that the outbound call
  is reached. When the call \<^verbatim>\<open>fetch(url, opts)\<close> that \<^verbatim>\<open>handle\<close> makes, with the URL of
  \<^verbatim>\<open>x-url\<close>, the inbound method, the parsed headers and for \<^verbatim>\<open>POST\<close> the inbound text,
  fails with an error, the promise resolves to a response with status 500 whose body is
  the message of that error; that call is the only outbound call among the effects (no
  retry) and the last effect. This is the sole error path: whatever the \<^verbatim>\<open>try\<close> block
  throws, from whichever statement, is answered by that same response with status 500 and
  the message of the error, and the promise is never rejected.
\<close>

theorem handle_fetch_failure:
  fixes plat :: platform and this :: proxy and req :: request and hdrs :: json
  defines "url \<equiv> or_empty (Headers_get (req_headers req) ''x-url'')"
  assumes parse: "JSON_parse plat (or_empty (Headers_get (req_headers req) ''x-headers'')) = Inr hdrs"
  shows "(\<forall>b err.
            (req_method req = ''POST'' \<longrightarrow> req_text req = Inr b) \<and>
            fetch plat url \<lparr>opt_method = req_method req, opt_headers = hdrs,
                             opt_body = (if req_method req = ''POST'' then Some b else None)\<rparr>
              = Inl err \<longrightarrow>
            fst (handle plat this req) =
              Inr \<lparr>status = 500, headers = [(''content-type'', ''text/plain;charset=UTF-8'')],
                   body = Some (TextBody (message err))\<rparr> \<and>
            filter is_fetch (snd (handle plat this req)) =
              [Fetch url \<lparr>opt_method = req_method req, opt_headers = hdrs,
                          opt_body = (if req_method req = ''POST'' then Some b else None)\<rparr>] \<and>
            last (snd (handle plat this req)) =
              Fetch url \<lparr>opt_method = req_method req, opt_headers = hdrs,
                         opt_body = (if req_method req = ''POST'' then Some b else None)\<rparr>)
       \<and> (\<forall>e tr. try_block plat req url hdrs = (Inl e, tr) \<longrightarrow>
            fst (handle plat this req) =
              Inr \<lparr>status = 500, headers = [(''content-type'', ''text/plain;charset=UTF-8'')],
                   body = Some (TextBody (message e))\<rparr>)
       \<and> (\<exists>resp. fst (handle plat this req) = Inr resp)"
proof (intro conjI allI impI)
  fix b err
  assume h: "(req_method req = ''POST'' \<longrightarrow> req_text req = Inr b) \<and>
            fetch plat url \<lparr>opt_method = req_method req, opt_headers = hdrs,
                             opt_body = (if req_method req = ''POST'' then Some b else None)\<rparr>
              = Inl err"
  let ?opts = "\<lparr>opt_method = req_method req, opt_headers = hdrs,
                 opt_body = (if req_method req = ''POST'' then Some b else None)\<rparr>"
  let ?io = "(if req_method req = ''POST''
              then [ReadText, ConsoleLog (req_method req @ '' '' @ url)] else [])"
  from h have read: "req_method req = ''POST'' \<longrightarrow> req_text req = Inr b"
    and fail: "fetch plat url ?opts = Inl err" by simp_all
  have tb: "try_block plat req url hdrs = (Inl err, ?io @ [Fetch url ?opts])"
    using try_block_fetch [OF read, of plat url hdrs] fail by simp
  have ht: "handle_try plat req url hdrs =
     (Inr \<lparr>status = 500, headers = [(''content-type'', ''text/plain;charset=UTF-8'')],
           body = Some (TextBody (message err))\<rparr>, ?io @ [Fetch url ?opts])"
    by (rule handle_try_caught [OF tb])
  show "fst (handle plat this req) =
              Inr \<lparr>status = 500, headers = [(''content-type'', ''text/plain;charset=UTF-8'')],
                   body = Some (TextBody (message err))\<rparr>"
    using handle_parsed [OF parse, of this] ht by (simp add: url_def)
  show "filter is_fetch (snd (handle plat this req)) = [Fetch url ?opts]"
    using handle_parsed [OF parse, of this] ht by (simp add: url_def)
  show "last (snd (handle plat this req)) = Fetch url ?opts"
    using handle_parsed [OF parse, of this] ht by (simp add: url_def)
next
  fix e tr
  assume "try_block plat req url hdrs = (Inl e, tr)"
  from handle_try_caught [OF this] handle_parsed [OF parse, of this]
  show "fst (handle plat this req) =
              Inr \<lparr>status = 500, headers = [(''content-type'', ''text/plain;charset=UTF-8'')],
                   body = Some (TextBody (message e))\<rparr>"
    by (simp add: url_def)
next
  show "\<exists>resp. fst (handle plat this req) = Inr resp"
    using handle_parsed [OF parse, of this] handle_try_resolves [of plat req url hdrs]
    by (simp add: url_def)
qed

theorem handle_fetch_failure_witness:
  "JSON_parse sample_platform (or_empty (Headers_get (req_headers sample_get_down) ''x-headers''))
     = Inr (JObject []) \<and>
   fetch sample_platform ''http://down.example/''
      \<lparr>opt_method = ''GET'', opt_headers = JObject [], opt_body = None\<rparr>
     = Inl (JsError ''TypeError'' ''error sending request'') \<and>
   try_block sample_platform sample_get_down ''http://down.example/'' (JObject [])
     = (Inl (JsError ''TypeError'' ''error sending request''),
        [Fetch ''http://down.example/''
           \<lparr>opt_method = ''GET'', opt_headers = JObject [], opt_body = None\<rparr>]) \<and>
   fst (handle sample_platform server_proxy sample_get_down)
     = Inr \<lparr>status = 500, headers = [(''content-type'', ''text/plain;charset=UTF-8'')],
            body = Some (TextBody ''error sending request'')\<rparr> \<and>
   filter is_fetch (snd (handle sample_platform server_proxy sample_get_down))
     = [Fetch ''http://down.example/''
          \<lparr>opt_method = ''GET'', opt_headers = JObject [], opt_body = None\<rparr>] \<and>
   JSON_parse sample_platform (or_empty (Headers_get (req_headers sample_post_down) ''x-headers''))
     = Inr (JObject []) \<and>
   req_text sample_post_down = Inr ''payload'' \<and>
   fetch sample_platform ''http://down.example/''
      \<lparr>opt_method = ''POST'', opt_headers = JObject [], opt_body = Some ''payload''\<rparr>
     = Inl (JsError ''TypeError'' ''error sending request'') \<and>
   fst (handle sample_platform server_proxy sample_post_down)
     = Inr \<lparr>status = 500, headers = [(''content-type'', ''text/plain;charset=UTF-8'')],
            body = Some (TextBody ''error sending request'')\<rparr> \<and>
   filter is_fetch (snd (handle sample_platform server_proxy sample_post_down))
     = [Fetch ''http://down.example/''
          \<lparr>opt_method = ''POST'', opt_headers = JObject [], opt_body = Some ''payload''\<rparr>]"
proof -
  let ?err = "JsError ''TypeError'' ''error sending request''"
  let ?gopts = "\<lparr>opt_method = ''GET'', opt_headers = JObject [], opt_body = None\<rparr>"
  let ?popts = "\<lparr>opt_method = ''POST'', opt_headers = JObject [], opt_body = Some ''payload''\<rparr>"
  have f: "fetch sample_platform ''http://down.example/'' ?gopts = Inl ?err"
    "fetch sample_platform ''http://down.example/'' ?popts = Inl ?err"
    by (simp_all add: sample_platform_def)
  have t: "try_block sample_platform sample_get_down ''http://down.example/'' (JObject [])
     = (Inl ?err, [Fetch ''http://down.example/'' ?gopts])"
    by (simp add: try_block_def sample_down_facts f)
  note G = handle_fetch_failure [OF sample_down_facts(1), of server_proxy,
      unfolded sample_down_facts(3,5)]
  note P = handle_fetch_failure [OF sample_down_facts(2), of server_proxy,
      unfolded sample_down_facts(4,6)]
  from G have g1: "fst (handle sample_platform server_proxy sample_get_down)
     = Inr \<lparr>status = 500, headers = [(''content-type'', ''text/plain;charset=UTF-8'')],
            body = Some (TextBody (message ?err))\<rparr> \<and>
     filter is_fetch (snd (handle sample_platform server_proxy sample_get_down))
     = [Fetch ''http://down.example/'' ?gopts]"
    using f(1) by (auto dest!: conjunct1 spec [of _ "[]"] spec [of _ ?err])
  from P have p1: "fst (handle sample_platform server_proxy sample_post_down)
     = Inr \<lparr>status = 500, headers = [(''content-type'', ''text/plain;charset=UTF-8'')],
            body = Some (TextBody (message ?err))\<rparr> \<and>
     filter is_fetch (snd (handle sample_platform server_proxy sample_post_down))
     = [Fetch ''http://down.example/'' ?popts]"
    using f(2) sample_down_facts(7) by (auto dest!: conjunct1 spec [of _ "''payload''"] spec [of _ ?err])
  from g1 p1 f t sample_down_facts show ?thesis by simp
qed


text \<open>
  Claim C3 as stated fails: an upstream that answers with the status 999 makes the
  constructor of the response throw a \<^verbatim>\<open>RangeError\<close> inside the \<^verbatim>\<open>try\<close> block, and the
  handler answers 500, not the status of the upstream.
\<close>

theorem handle_status_out_of_range:
  "fetch odd_platform ''http://up.example/''
      \<lparr>opt_method = ''GET'', opt_headers = JObject [], opt_body = None\<rparr>
     = Inr \<lparr>status = 999, headers = [(''Content-Type'', ''text/plain'')],
            body = Some (StreamBody ''odd'')\<rparr> \<and>
   handle odd_platform server_proxy sample_get_up
     = (Inr \<lparr>status = 500, headers = [(''content-type'', ''text/plain;charset=UTF-8'')],
             body = Some (TextBody ''The status provided is outside the range [200, 599]'')\<rparr>,
        [Fetch ''http://up.example/''
           \<lparr>opt_method = ''GET'', opt_headers = JObject [], opt_body = None\<rparr>])"
  by (simp add: sample_defs)

text \<open>
  The runtime is an arbitrary function here, so an upstream response may pair the status
  204 with a body, which \<^verbatim>\<open>fetch\<close> itself never delivers; the constructor refuses that
  pair too, and the handler answers 500.
\<close>

lemma handle_null_body_status_example:
  "fst (handle (sample_platform\<lparr>fetch := (\<lambda>u opts.
           Inr \<lparr>status = 204, headers = [], body = Some (StreamBody ''x'')\<rparr>)\<rparr>)
         server_proxy sample_get_up)
     = Inr \<lparr>status = 500, headers = [(''content-type'', ''text/plain;charset=UTF-8'')],
            body = Some (TextBody ''Response with null body status cannot have body'')\<rparr>"
  by (simp add: sample_defs)

text \<open>
  Claim C3, amended. When the outbound call that \<^verbatim>\<open>handle\<close> makes succeeds with a status
  that the constructor of a response accepts, that is a status within 200..599 and, as
  \<^verbatim>\<open>fetch\<close> delivers it, no body when the status is 204, 205 or 304, the promise resolves
  to a response with the status and the body of the upstream response; its headers hold
  neither \<^verbatim>\<open>age\<close> nor \<^verbatim>\<open>expires\<close>, and its \<^verbatim>\<open>cache-control\<close> header is \<^verbatim>\<open>no-cache\<close> and
  nothing else. This is stated both for the case-insensitive lookups of a header list and
  for the exact keys.
\<close>

theorem handle_success_response:
  fixes plat :: platform and this :: proxy and req :: request and hdrs :: json
  defines "url \<equiv> or_empty (Headers_get (req_headers req) ''x-url'')"
  assumes parse: "JSON_parse plat (or_empty (Headers_get (req_headers req) ''x-headers'')) = Inr hdrs"
    and read: "req_method req = ''POST'' \<longrightarrow> req_text req = Inr b"
    and ok: "fetch plat url \<lparr>opt_method = req_method req, opt_headers = hdrs,
                             opt_body = (if req_method req = ''POST'' then Some b else None)\<rparr>
              = Inr up"
    and range: "200 \<le> status up" "status up \<le> 599"
    and nobody: "null_body_status (status up) \<longrightarrow> body up = None"
  shows "\<exists>resp. fst (handle plat this req) = Inr resp
           \<and> status resp = status up
           \<and> body resp = body up
           \<and> \<not> Headers_has (headers resp) ''age''
           \<and> \<not> Headers_has (headers resp) ''expires''
           \<and> Headers_get (headers resp) ''cache-control'' = Some ''no-cache''
           \<and> map_of (headers resp) ''age'' = None
           \<and> map_of (headers resp) ''expires'' = None
           \<and> map_of (headers resp) ''cache-control'' = Some ''no-cache''"
proof -
  define H where "H = obj_assign [(''cache-control'', ''no-cache'')]
            (obj_delete ''expires'' (obj_delete ''cache-control'' (obj_delete ''age''
              (Object_fromEntries (Headers_entries (headers up))))))"
  from Response_new_accepts [OF range nobody, of H] obtain H' where
    rn: "Response_new (body up) (Some (status up)) H =
           Inr \<lparr>status = status up, headers = H', body = body up\<rparr>" and
    H': "H' = H \<or> H' = H @ [(''content-type'', ''text/plain;charset=UTF-8'')]"
    by blast
  have tb: "fst (try_block plat req url hdrs) =
              Inr \<lparr>status = status up, headers = H', body = body up\<rparr>"
    using try_block_fetch [OF read, of plat url hdrs] ok rn by (simp add: H_def)
  then have "fst (handle_try plat req url hdrs) =
              Inr \<lparr>status = status up, headers = H', body = body up\<rparr>"
    by (cases "try_block plat req url hdrs") (simp add: handle_try_def)
  then have r: "fst (handle plat this req) =
              Inr \<lparr>status = status up, headers = H', body = body up\<rparr>"
    using handle_parsed [OF parse, of this] by (simp add: url_def)
  have l: "toLowerCase ''age'' \<noteq> ''content-type''" "toLowerCase ''expires'' \<noteq> ''content-type''"
    "toLowerCase ''cache-control'' \<noteq> ''content-type''"
    by (simp_all add: toLowerCase_def lower_char_def)
  have hv: "header_values H' ''age'' = header_values H ''age''"
    "header_values H' ''expires'' = header_values H ''expires''"
    "header_values H' ''cache-control'' = header_values H ''cache-control''"
    and mo: "map_of H' ''age'' = map_of H ''age''"
    "map_of H' ''expires'' = map_of H ''expires''"
    "map_of H' ''cache-control'' = map_of H ''cache-control''"
    using content_type_added [OF H'] l by simp_all
  from no_cache_headers [OF H_def] hv mo
  have "\<not> Headers_has H' ''age''" "\<not> Headers_has H' ''expires''"
    "Headers_get H' ''cache-control'' = Some ''no-cache''"
    "map_of H' ''age'' = None" "map_of H' ''expires'' = None"
    "map_of H' ''cache-control'' = Some ''no-cache''"
    by (simp_all add: Headers_has_def Headers_get_def)
  with r show ?thesis by simp
qed



theorem handle_success_response_witness:
  "JSON_parse sample_platform (or_empty (Headers_get (req_headers sample_get_up) ''x-headers''))
     = Inr (JObject []) \<and>
   (\<exists>up. fetch sample_platform ''http://up.example/''
            \<lparr>opt_method = ''GET'', opt_headers = JObject [], opt_body = None\<rparr> = Inr up \<and>
         status up = 404 \<and> Headers_has (headers up) ''age'' \<and>
         Headers_get (headers up) ''cache-control'' = Some ''max-age=60'') \<and>
   (\<exists>resp. fst (handle sample_platform server_proxy sample_get_up) = Inr resp \<and>
      status resp = 404 \<and> body resp = Some (StreamBody ''hello'') \<and>
      \<not> Headers_has (headers resp) ''age'' \<and>
      \<not> Headers_has (headers resp) ''expires'' \<and>
      Headers_get (headers resp) ''cache-control'' = Some ''no-cache'')"
proof -
  define up where "up = \<lparr>status = 404,
      headers = [(''Age'', ''5''), (''Cache-Control'', ''max-age=60''),
                 (''Expires'', ''0''), (''Content-Type'', ''text/plain'')],
      body = Some (StreamBody ''hello'')\<rparr>"
  have r: "req_method sample_get_up = ''POST'' \<longrightarrow> req_text sample_get_up = Inr []"
    by (simp add: sample_up_facts)
  have f: "fetch sample_platform ''http://up.example/''
            \<lparr>opt_method = ''GET'', opt_headers = JObject [], opt_body = None\<rparr> = Inr up"
    by (simp add: sample_platform_def up_def)
  then have f': "fetch sample_platform (or_empty (Headers_get (req_headers sample_get_up) ''x-url''))
      \<lparr>opt_method = req_method sample_get_up, opt_headers = JObject [],
         opt_body = (if req_method sample_get_up = ''POST'' then Some [] else None)\<rparr> = Inr up"
    by (simp add: sample_up_facts)
  have s: "200 \<le> status up" "status up \<le> 599" "null_body_status (status up) \<longrightarrow> body up = None"
    by (simp_all add: up_def null_body_status_def)
  have u: "status up = 404 \<and> Headers_has (headers up) ''age'' \<and>
         Headers_get (headers up) ''cache-control'' = Some ''max-age=60''"
    "body up = Some (StreamBody ''hello'')"
    by (simp_all add: up_def Headers_has_def Headers_get_def header_values_def toLowerCase_def
          lower_char_def)
  from handle_success_response [OF sample_up_facts(1) r f' s, of server_proxy] u f
    sample_up_facts(1)
  show ?thesis by auto
qed

text \<open>
  Claim C6. Take a forward request whose \<^verbatim>\<open>x-headers\<close> parses (and, for \<^verbatim>\<open>POST\<close>, whose
  body can be read), so that an outbound request is built. \<^verbatim>\<open>handle\<close> makes exactly one
  outbound call; its request has the method of the inbound request. When that method is
  \<^verbatim>\<open>POST\<close>, the inbound body is read and the whole text is the outbound body; for any
  other method the body is not read and the outbound request has no body.
\<close>

theorem handle_outbound_request:
  fixes plat :: platform and this :: proxy and req :: request and hdrs :: json
  defines "url \<equiv> or_empty (Headers_get (req_headers req) ''x-url'')"
  assumes parse: "JSON_parse plat (or_empty (Headers_get (req_headers req) ''x-headers'')) = Inr hdrs"
    and read: "req_method req = ''POST'' \<longrightarrow> req_text req = Inr b"
  shows "filter is_fetch (snd (handle plat this req)) =
           [Fetch url \<lparr>opt_method = req_method req, opt_headers = hdrs,
                       opt_body = (if req_method req = ''POST'' then Some b else None)\<rparr>]
       \<and> snd (handle plat this req) =
           (if debug this then [ConsoleLog (''Handling '' @ url)] else [])
           @ (if req_method req = ''POST''
              then [ReadText, ConsoleLog (req_method req @ '' '' @ url)] else [])
           @ [Fetch url \<lparr>opt_method = req_method req, opt_headers = hdrs,
                         opt_body = (if req_method req = ''POST'' then Some b else None)\<rparr>]
       \<and> (ReadText \<in> set (snd (handle plat this req)) \<longleftrightarrow> req_method req = ''POST'')"
proof -
  let ?opts = "\<lparr>opt_method = req_method req, opt_headers = hdrs,
                 opt_body = (if req_method req = ''POST'' then Some b else None)\<rparr>"
  have "snd (handle plat this req) =
           (if debug this then [ConsoleLog (''Handling '' @ url)] else [])
           @ (if req_method req = ''POST''
              then [ReadText, ConsoleLog (req_method req @ '' '' @ url)] else [])
           @ [Fetch url ?opts]"
    using handle_parsed [OF parse, of this] try_block_fetch [OF read, of plat url hdrs]
    by (simp add: url_def handle_try_trace)
  then show ?thesis by auto
qed


theorem handle_outbound_request_witness:
  "JSON_parse sample_platform (or_empty (Headers_get (req_headers sample_get_down) ''x-headers''))
     = Inr (JObject []) \<and>
   req_method sample_get_down = ''GET'' \<and>
   snd (handle sample_platform server_proxy sample_get_down)
     = [Fetch ''http://down.example/''
          \<lparr>opt_method = ''GET'', opt_headers = JObject [], opt_body = None\<rparr>] \<and>
   ReadText \<notin> set (snd (handle sample_platform server_proxy sample_get_down)) \<and>
   JSON_parse sample_platform (or_empty (Headers_get (req_headers sample_post_down) ''x-headers''))
     = Inr (JObject []) \<and>
   req_method sample_post_down = ''POST'' \<and> req_text sample_post_down = Inr ''payload'' \<and>
   snd (handle sample_platform server_proxy sample_post_down)
     = [ReadText, ConsoleLog ''POST http://down.example/'',
        Fetch ''http://down.example/''
          \<lparr>opt_method = ''POST'', opt_headers = JObject [], opt_body = Some ''payload''\<rparr>] \<and>
   ReadText \<in> set (snd (handle sample_platform server_proxy sample_post_down))"
proof -
  have d: "\<not> debug server_proxy" by (simp add: server_proxy_def Proxy_new_def)
  have rg: "req_method sample_get_down = ''POST'' \<longrightarrow> req_text sample_get_down = Inr []"
    by (simp add: sample_down_facts)
  have rp: "req_method sample_post_down = ''POST'' \<longrightarrow> req_text sample_post_down = Inr ''payload''"
    by (simp add: sample_down_facts)
  from handle_outbound_request [OF sample_down_facts(1) rg, of server_proxy]
  have g: "snd (handle sample_platform server_proxy sample_get_down)
     = [Fetch ''http://down.example/''
          \<lparr>opt_method = ''GET'', opt_headers = JObject [], opt_body = None\<rparr>] \<and>
     ReadText \<notin> set (snd (handle sample_platform server_proxy sample_get_down))"
    by (simp add: sample_down_facts d)
  from handle_outbound_request [OF sample_down_facts(2) rp, of server_proxy]
  have p: "snd (handle sample_platform server_proxy sample_post_down)
     = [ReadText, ConsoleLog ''POST http://down.example/'',
        Fetch ''http://down.example/''
          \<lparr>opt_method = ''POST'', opt_headers = JObject [], opt_body = Some ''payload''\<rparr>] \<and>
     ReadText \<in> set (snd (handle sample_platform server_proxy sample_post_down))"
    by (simp add: sample_down_facts d)
  from g p sample_down_facts show ?thesis by simp
qed

section \<open>The WebSocket relay\<close>

lemmas sample_ws_defs =
  handleWs_def sample_platform_def sample_ws_request_def sample_upgrade_def sample_session_def
  server_proxy_def Proxy_new_def or_empty_def Headers_get_def Headers_has_def
  header_values_def toLowerCase_def lower_char_def Response_new_def null_body_status_def
  WebSocket_new_def upgraded_socket_def
  searchParams_get_def Let_def

lemma sample_handleWs:
  "handleWs sample_platform server_proxy sample_upgrade =
     (Inr (Upgraded \<lparr>status = 101, headers = [(''upgrade'', ''websocket'')], body = None\<rparr>
             sample_session),
      [UpgradeWebSocket [], NewWebSocket ''ws://up.example/'' []])"
  by (simp add: sample_ws_defs)

lemma sample_session_opens:
  "\<exists>s. run [OpenEvent Sock, OpenEvent ProxySock] sample_session = Some s \<and>
       readyState (sock s) = OPEN \<and> readyState (proxySock s) = OPEN \<and>
       sent (sock s) = [] \<and> sent (proxySock s) = []"
  by (simp add: sample_session_def get_sock_def map_sock_def)

text \<open>
  Claim C7. When the request is not a WebSocket upgrade, that is when
  \<^verbatim>\<open>Deno.upgradeWebSocket\<close> throws, \<^verbatim>\<open>handleWs\<close> returns (and does not throw) a plain
  response with the default status and the body \<^verbatim>\<open>Not a WS connection\<close> (a string, so
  with the content type of text); the attempt to upgrade is its only effect: no outbound
  socket is created and no session is wired.
\<close>

theorem handleWs_not_upgrade:
  assumes "upgradeWebSocket plat req (or_empty (Headers_get (req_headers req) ''sec-websocket-protocol'')) = Inl err"
  shows "handleWs plat this req =
           (Inr (Plain \<lparr>status = 200,
                        headers = [(''content-type'', ''text/plain;charset=UTF-8'')],
                        body = Some (TextBody ''Not a WS connection'')\<rparr>),
            [UpgradeWebSocket (or_empty (Headers_get (req_headers req) ''sec-websocket-protocol''))])"
  using assms
  by (simp add: handleWs_def Response_new_def null_body_status_def Headers_has_def
        header_values_def)


theorem handleWs_not_upgrade_witness:
  "upgradeWebSocket sample_platform (sample_ws_request [(''url'', ''ws://up.example/'')] [])
      (or_empty (Headers_get (req_headers (sample_ws_request [(''url'', ''ws://up.example/'')] []))
                   ''sec-websocket-protocol''))
     = Inl (JsError ''TypeError'' ''Invalid Header: upgrade'') \<and>
   handleWs sample_platform server_proxy (sample_ws_request [(''url'', ''ws://up.example/'')] [])
     = (Inr (Plain \<lparr>status = 200,
                    headers = [(''content-type'', ''text/plain;charset=UTF-8'')],
                    body = Some (TextBody ''Not a WS connection'')\<rparr>),
        [UpgradeWebSocket []])"
proof -
  have h: "upgradeWebSocket sample_platform (sample_ws_request [(''url'', ''ws://up.example/'')] [])
      (or_empty (Headers_get (req_headers (sample_ws_request [(''url'', ''ws://up.example/'')] []))
                   ''sec-websocket-protocol''))
     = Inl (JsError ''TypeError'' ''Invalid Header: upgrade'')"
    by (simp add: sample_ws_defs)
  from handleWs_not_upgrade [OF h, of server_proxy] h show ?thesis
    by (simp add: sample_ws_defs)
qed

text \<open>
  Claim C10. When the request is a WebSocket upgrade and its URL has no \<^verbatim>\<open>url\<close> query
  parameter, the target URL is the empty string, \<^verbatim>\<open>new WebSocket\<close> is called with it
  and throws; nothing catches the error, so \<^verbatim>\<open>handleWs\<close> throws it to its caller and
  returns no response. The construction of the socket is the last effect.
\<close>

theorem handleWs_missing_url:
  assumes "upgradeWebSocket plat req (or_empty (Headers_get (req_headers req) ''sec-websocket-protocol'')) = Inr resp"
    and "searchParams_get (req_url req) ''url'' = None"
  shows "fst (handleWs plat this req) = Inl (JsError ''SyntaxError'' ''Invalid URL'')
         \<and> NewWebSocket [] (or_empty (Headers_get (req_headers req) ''sec-websocket-protocol''))
             \<in> set (snd (handleWs plat this req))
         \<and> last (snd (handleWs plat this req)) =
             NewWebSocket [] (or_empty (Headers_get (req_headers req) ''sec-websocket-protocol''))"
  using assms by (simp add: handleWs_def WebSocket_new_def or_empty_def Let_def)


theorem handleWs_missing_url_witness:
  "upgradeWebSocket sample_platform (sample_ws_request [] [(''Upgrade'', ''websocket'')])
      (or_empty (Headers_get (req_headers (sample_ws_request [] [(''Upgrade'', ''websocket'')]))
                   ''sec-websocket-protocol''))
     = Inr \<lparr>status = 101, headers = [(''upgrade'', ''websocket'')], body = None\<rparr> \<and>
   searchParams_get (req_url (sample_ws_request [] [(''Upgrade'', ''websocket'')])) ''url'' = None \<and>
   fst (handleWs sample_platform server_proxy (sample_ws_request [] [(''Upgrade'', ''websocket'')]))
     = Inl (JsError ''SyntaxError'' ''Invalid URL'')"
proof -
  have h1: "upgradeWebSocket sample_platform (sample_ws_request [] [(''Upgrade'', ''websocket'')])
      (or_empty (Headers_get (req_headers (sample_ws_request [] [(''Upgrade'', ''websocket'')]))
                   ''sec-websocket-protocol''))
     = Inr \<lparr>status = 101, headers = [(''upgrade'', ''websocket'')], body = None\<rparr>"
    by (simp add: sample_ws_defs)
  have h2: "searchParams_get (req_url (sample_ws_request [] [(''Upgrade'', ''websocket'')])) ''url'' = None"
    by (simp add: sample_ws_defs)
  from handleWs_missing_url [OF h1 h2, of server_proxy] h1 h2 show ?thesis by simp
qed

subsection \<open>Sessions\<close>

lemma handleWs_session:
  assumes "handleWs plat this req = (Inr (Upgraded resp s0), tr)"
  shows "wired s0 \<and> readyState (sock s0) = CONNECTING \<and> readyState (proxySock s0) = CONNECTING
         \<and> sent (sock s0) = [] \<and> sent (proxySock s0) = [] \<and> uncaught s0 = []"
  using assms
  by (auto simp: handleWs_def WebSocket_new_def upgraded_socket_def wired_def Let_def
           split: sum.splits if_splits option.splits)

lemma fire_wired: "wired s \<Longrightarrow> fire e s = Some s' \<Longrightarrow> wired s'"
  by (cases e; cases "case e of OpenEvent r \<Rightarrow> r | MessageEvent r d \<Rightarrow> r | CloseEvent r \<Rightarrow> r")
     (auto simp: wired_def get_sock_def map_sock_def WebSocket_send_def WebSocket_close_def Let_def
           split: if_splits)

lemma fire_no_dangling: "wired s \<Longrightarrow> no_dangling s \<Longrightarrow> fire e s = Some s' \<Longrightarrow> no_dangling s'"
  by (cases e; cases "case e of OpenEvent r \<Rightarrow> r | MessageEvent r d \<Rightarrow> r | CloseEvent r \<Rightarrow> r")
     (auto simp: wired_def no_dangling_def get_sock_def map_sock_def WebSocket_send_def
                 WebSocket_close_def Let_def
           split: if_splits)

lemma run_invariant:
  "wired s \<Longrightarrow> no_dangling s \<Longrightarrow> run es s = Some s' \<Longrightarrow> wired s' \<and> no_dangling s'"
proof (induction es arbitrary: s)
  case Nil
  then show ?case by simp
next
  case (Cons e es)
  from Cons.prems(3) obtain s1 where f: "fire e s = Some s1" and r: "run es s1 = Some s'"
    by (auto split: option.splits)
  from Cons.IH [OF fire_wired [OF Cons.prems(1) f] fire_no_dangling [OF Cons.prems(1,2) f] r]
  show ?case .
qed

lemma run_snoc: "run es s = Some s1 \<Longrightarrow> fire e s1 = Some s2 \<Longrightarrow> run (es @ [e]) s = Some s2"
  by (induction es arbitrary: s) (auto split: option.splits)

lemma fire_close_client:
  assumes "wired s" "fire (CloseEvent Sock) s = Some s'"
  shows "readyState (sock s') = CLOSED \<and>
         (readyState (proxySock s') = CLOSING \<or> readyState (proxySock s') = CLOSED)"
  using assms
  by (auto simp: wired_def get_sock_def map_sock_def WebSocket_close_def Let_def split: if_splits)

lemma fire_close_upstream:
  assumes "wired s" "fire (CloseEvent ProxySock) s = Some s'"
  shows "readyState (proxySock s') = CLOSED \<and>
         (readyState (sock s') = CLOSING \<or> readyState (sock s') = CLOSED)"
  using assms
  by (auto simp: wired_def get_sock_def map_sock_def WebSocket_close_def Let_def split: if_splits)

lemma fire_message_open:
  assumes "wired s" "readyState (sock s) = OPEN" "readyState (proxySock s) = OPEN"
  shows "fire (MessageEvent Sock d) s = Some (s\<lparr>proxySock := (proxySock s)\<lparr>sent := sent (proxySock s) @ [d]\<rparr>\<rparr>)"
    "fire (MessageEvent ProxySock d) s = Some (s\<lparr>sock := (sock s)\<lparr>sent := sent (sock s) @ [d]\<rparr>\<rparr>)"
  using assms
  by (auto simp: wired_def get_sock_def map_sock_def WebSocket_send_def)

lemma relay_wired_messages:
  assumes "wired s" "readyState (sock s) = OPEN" "readyState (proxySock s) = OPEN"
    "\<forall>e \<in> set msgs. is_message e"
  shows "\<exists>s'. run msgs s = Some s'
           \<and> sent (proxySock s') = sent (proxySock s) @ received Sock msgs
           \<and> sent (sock s') = sent (sock s) @ received ProxySock msgs
           \<and> readyState (sock s') = OPEN \<and> readyState (proxySock s') = OPEN
           \<and> uncaught s' = uncaught s \<and> wired s'"
  using assms
proof (induction msgs arbitrary: s)
  case Nil
  then show ?case by simp
next
  case (Cons e msgs)
  from Cons.prems(4) obtain r d where e: "e = MessageEvent r d"
    by (cases e) auto
  show ?case
  proof (cases r)
    case Sock
    let ?s1 = "s\<lparr>proxySock := (proxySock s)\<lparr>sent := sent (proxySock s) @ [d]\<rparr>\<rparr>"
    have f: "fire e s = Some ?s1"
      using fire_message_open(1) [OF Cons.prems(1-3)] e Sock by simp
    have "\<exists>s'. run msgs ?s1 = Some s'
           \<and> sent (proxySock s') = sent (proxySock ?s1) @ received Sock msgs
           \<and> sent (sock s') = sent (sock ?s1) @ received ProxySock msgs
           \<and> readyState (sock s') = OPEN \<and> readyState (proxySock s') = OPEN
           \<and> uncaught s' = uncaught ?s1 \<and> wired s'"
      using Cons.prems by (intro Cons.IH) (simp_all add: wired_def)
    then show ?thesis using f e Sock by auto
  next
    case ProxySock
    let ?s1 = "s\<lparr>sock := (sock s)\<lparr>sent := sent (sock s) @ [d]\<rparr>\<rparr>"
    have f: "fire e s = Some ?s1"
      using fire_message_open(2) [OF Cons.prems(1-3)] e ProxySock by simp
    have "\<exists>s'. run msgs ?s1 = Some s'
           \<and> sent (proxySock s') = sent (proxySock ?s1) @ received Sock msgs
           \<and> sent (sock s') = sent (sock ?s1) @ received ProxySock msgs
           \<and> readyState (sock s') = OPEN \<and> readyState (proxySock s') = OPEN
           \<and> uncaught s' = uncaught ?s1 \<and> wired s'"
      using Cons.prems by (intro Cons.IH) (simp_all add: wired_def)
    then show ?thesis using f e ProxySock by auto
  qed
qed


text \<open>
  Claim C8. In a session that \<^verbatim>\<open>handleWs\<close> has set up and in which both sockets are
  open, any sequence of messages, of any length and from either side, is delivered and
  relayed: the frames accepted by the upstream socket grow by exactly the payloads received
  on the client socket, in order and unchanged (a text frame stays a text frame, a binary
  frame a binary frame), and the frames accepted by the client socket by exactly the
  payloads received on the upstream socket; both sockets stay open.
\<close>

theorem relay_messages:
  assumes "handleWs plat this req = (Inr (Upgraded resp s0), tr)"
    and "run pre s0 = Some s"
    and "readyState (sock s) = OPEN" and "readyState (proxySock s) = OPEN"
    and "\<forall>e \<in> set msgs. is_message e"
  shows "\<exists>s'. run msgs s = Some s'
           \<and> sent (proxySock s') = sent (proxySock s) @ received Sock msgs
           \<and> sent (sock s') = sent (sock s) @ received ProxySock msgs
           \<and> readyState (sock s') = OPEN \<and> readyState (proxySock s') = OPEN"
proof -
  from handleWs_session [OF assms(1)] have "wired s0" "no_dangling s0"
    by (simp_all add: no_dangling_def)
  from run_invariant [OF this assms(2)] have "wired s" by simp
  from relay_wired_messages [OF this assms(3,4,5)] show ?thesis by blast
qed

theorem relay_messages_witness:
  "\<exists>resp tr s s'.
     handleWs sample_platform server_proxy sample_upgrade = (Inr (Upgraded resp sample_session), tr) \<and>
     run [OpenEvent Sock, OpenEvent ProxySock] sample_session = Some s \<and>
     readyState (sock s) = OPEN \<and> readyState (proxySock s) = OPEN \<and>
     (\<forall>e \<in> set [MessageEvent Sock (TextData ''ping''), MessageEvent ProxySock (BinaryData [1, 2]),
                 MessageEvent Sock (TextData ''again'')]. is_message e) \<and>
     run [MessageEvent Sock (TextData ''ping''), MessageEvent ProxySock (BinaryData [1, 2]),
          MessageEvent Sock (TextData ''again'')] s = Some s' \<and>
     sent (proxySock s') = [TextData ''ping'', TextData ''again''] \<and>
     sent (sock s') = [BinaryData [1, 2]]"
proof -
  let ?msgs = "[MessageEvent Sock (TextData ''ping''), MessageEvent ProxySock (BinaryData [1, 2]),
                MessageEvent Sock (TextData ''again'')]"
  from sample_session_opens obtain s where
    h2: "run [OpenEvent Sock, OpenEvent ProxySock] sample_session = Some s" and
    h3: "readyState (sock s) = OPEN" and h4: "readyState (proxySock s) = OPEN" and
    e: "sent (sock s) = []" "sent (proxySock s) = []"
    by blast
  have h5: "\<forall>e \<in> set ?msgs. is_message e" by simp
  from relay_messages [OF sample_handleWs h2 h3 h4 h5] e obtain s' where
    "run ?msgs s = Some s'" "sent (proxySock s') = [TextData ''ping'', TextData ''again'']"
    "sent (sock s') = [BinaryData [1, 2]]"
    by auto
  with sample_handleWs h2 h3 h4 h5 show ?thesis by blast
qed

text \<open>
  Claim C9. In every state a session set up by \<^verbatim>\<open>handleWs\<close> can reach, by any sequence
  of events, no side is left dangling: if one socket is closed the other is closing or
  closed. In particular a close event on the client socket leaves the upstream socket
  closing or closed (its handler has called \<^verbatim>\<open>close\<close> on it), and a close event on the
  upstream socket does the same to the client socket.
\<close>

theorem close_propagation:
  assumes "handleWs plat this req = (Inr (Upgraded resp s0), tr)"
    and "run es s0 = Some s"
  shows "no_dangling s
         \<and> (\<forall>s'. fire (CloseEvent Sock) s = Some s' \<longrightarrow>
               readyState (sock s') = CLOSED \<and>
               (readyState (proxySock s') = CLOSING \<or> readyState (proxySock s') = CLOSED))
         \<and> (\<forall>s'. fire (CloseEvent ProxySock) s = Some s' \<longrightarrow>
               readyState (proxySock s') = CLOSED \<and>
               (readyState (sock s') = CLOSING \<or> readyState (sock s') = CLOSED))"
proof -
  from handleWs_session [OF assms(1)] have "wired s0" "no_dangling s0"
    by (simp_all add: no_dangling_def)
  from run_invariant [OF this assms(2)] have w: "wired s" and n: "no_dangling s" by simp_all
  from n fire_close_client [OF w] fire_close_upstream [OF w] show ?thesis by blast
qed

theorem close_propagation_witness:
  "\<exists>resp tr s s'.
     handleWs sample_platform server_proxy sample_upgrade = (Inr (Upgraded resp sample_session), tr) \<and>
     run [OpenEvent Sock, OpenEvent ProxySock] sample_session = Some s \<and>
     readyState (proxySock s) = OPEN \<and>
     fire (CloseEvent Sock) s = Some s' \<and>
     readyState (sock s') = CLOSED \<and> readyState (proxySock s') = CLOSING \<and>
     no_dangling s \<and> no_dangling s'"
proof -
  from sample_session_opens obtain s where
    h2: "run [OpenEvent Sock, OpenEvent ProxySock] sample_session = Some s" and
    h3: "readyState (sock s) = OPEN" and h4: "readyState (proxySock s) = OPEN"
    by blast
  from h3 obtain s' where f: "fire (CloseEvent Sock) s = Some s'"
    by (simp add: get_sock_def Let_def)
  from run_snoc [OF h2 f]
  have h2': "run [OpenEvent Sock, OpenEvent ProxySock, CloseEvent Sock] sample_session = Some s'"
    by simp
  from close_propagation [OF sample_handleWs h2] f
  have c: "no_dangling s" "readyState (sock s') = CLOSED"
    "readyState (proxySock s') = CLOSING \<or> readyState (proxySock s') = CLOSED"
    by blast+
  from handleWs_session [OF sample_handleWs] have "wired sample_session" "no_dangling sample_session"
    by (simp_all add: no_dangling_def)
  from run_invariant [OF this h2] have "wired s" by simp
  with f h3 h4 have c': "readyState (proxySock s') = CLOSING"
    by (auto simp: wired_def get_sock_def map_sock_def WebSocket_close_def Let_def
             split: if_splits)
  from close_propagation [OF sample_handleWs h2'] have "no_dangling s'" by blast
  with sample_handleWs h2 h4 f c c' show ?thesis by blast
qed

end
